theory Spec2Isabelle
  imports Main "HOL-Library.Word"
begin

section \<open>Data model of \<open>src/index.js\<close>\<close>

text \<open>
  The bytes read from the file are a \<open>Uint8Array\<close>: a finite sequence of 8-bit
  values. A signature is a JavaScript array whose elements are byte values or
  \<open>undefined\<close>; \<open>undefined\<close> is the value \<open>None\<close>, a number \<open>v\<close> is \<open>Some v\<close>.
\<close>

type_synonym byte = "8 word"

text \<open>
  The object \<open>{ mime, ext }\<close> that \<open>getFileType\<close> resolves with. The README shows
  \<open>ext\<close> as a string (\<open>ext: "mp4"\<close>), and the fallback object carries \<open>ext: ""\<close>.
\<close>

record file_type =
  mime :: string
  ext :: string

text \<open>
  One element of \<open>signatureList\<close>: \<open>{ mime, ext, offset, signature }\<close>. The
  parameter pattern \<open>{ signature, offset = 0 }\<close> of \<open>check\<close> lets \<open>offset\<close> be
  missing, so the field is optional. An offset is a JavaScript integer; it is
  an \<open>int\<close> here so that the read at a negative index is part of the model.
\<close>

record typeItem = file_type +
  offset :: "int option"
  signature :: "byte option list"

text \<open>
  \<open>bufferss[k]\<close> on a \<open>Uint8Array\<close>: the element when \<open>k\<close> is an index of the
  array, \<open>undefined\<close> for every other integer. No read raises.
\<close>

definition typed_array_get :: "byte list \<Rightarrow> int \<Rightarrow> byte option" where
  "typed_array_get bufferss k =
     (if 0 \<le> k \<and> k < int (length bufferss) then Some (bufferss ! nat k) else None)"

section \<open>\<open>check\<close>\<close>

text \<open>
  \<^verbatim>\<open>
  for (let i = 0, len = signature.length; i < len; i++) {
    if (bufferss[i + offset] !== signature[i] && signature[i] !== undefined)
      return false;
  }
  return true;
  \<close>
  The loop, started at index \<open>i\<close>. The read \<open>signature[i]\<close> stays below
  \<open>len = signature.length\<close>.
\<close>

function check_loop :: "nat \<Rightarrow> nat \<Rightarrow> byte list \<Rightarrow> byte option list \<Rightarrow> int \<Rightarrow> bool" where
  "check_loop i len bufferss sig off =
     (if i < len then
        (if typed_array_get bufferss (int i + off) \<noteq> sig ! i \<and> sig ! i \<noteq> None
         then False
         else check_loop (i + 1) len bufferss sig off)
      else True)"
  by pat_completeness auto
termination
  by (relation "measure (\<lambda>(i, len, bufferss, sig, off). len - i)") auto

declare check_loop.simps [simp del]

text \<open>The parameter default \<open>offset = 0\<close>: a missing offset is \<open>0\<close>.\<close>

definition offset_of :: "typeItem \<Rightarrow> int" where
  "offset_of typeItem = (case offset typeItem of None \<Rightarrow> 0 | Some k \<Rightarrow> k)"

definition check :: "byte list \<Rightarrow> typeItem \<Rightarrow> bool" where
  "check bufferss typeItem =
     check_loop 0 (length (signature typeItem)) bufferss (signature typeItem)
       (offset_of typeItem)"

section \<open>\<open>getFileType\<close>\<close>

text \<open>
  The callback given to \<open>then\<close>:
  \<^verbatim>\<open>
  for (let i = 0, len = signatureList.length; i < len; i++) {
    if (check(buffers, signatureList[i])) {
      const { mime, ext } = signatureList[i];
      return { mime, ext };
    }
  }
  return { mime: file.type, ext: "" };
  \<close>
  \<open>signatureList\<close> is imported from \<open>signature-list.js\<close>; it is a parameter
  here, and so is \<open>file.type\<close>.
\<close>

function getFileType_loop ::
  "nat \<Rightarrow> nat \<Rightarrow> byte list \<Rightarrow> typeItem list \<Rightarrow> string \<Rightarrow> file_type" where
  "getFileType_loop i len buffers signatureList file_type =
     (if i < len then
        (if check buffers (signatureList ! i)
         then \<lparr>mime = mime (signatureList ! i), ext = ext (signatureList ! i)\<rparr>
         else getFileType_loop (i + 1) len buffers signatureList file_type)
      else \<lparr>mime = file_type, ext = ''''\<rparr>)"
  by pat_completeness auto
termination
  by (relation "measure (\<lambda>(i, len, buffers, signatureList, file_type). len - i)") auto

declare getFileType_loop.simps [simp del]

definition getFileType_then :: "byte list \<Rightarrow> typeItem list \<Rightarrow> string \<Rightarrow> file_type" where
  "getFileType_then buffers signatureList file_type =
     getFileType_loop 0 (length signatureList) buffers signatureList file_type"

text \<open>
  \<open>getArrayBuffer(file, options).then(...).catch((err) => err)\<close>: the promise of
  \<open>getArrayBuffer\<close> either resolves with the bytes (\<open>Inr\<close>) or rejects with an
  error of the reader (\<open>Inl\<close>). The \<open>catch\<close> turns a rejection into the resolved
  value \<open>err\<close>, so the promise of \<open>getFileType\<close> always resolves, with the error
  or with the object of the callback.
\<close>

definition getFileType ::
  "'err + byte list \<Rightarrow> typeItem list \<Rightarrow> string \<Rightarrow> 'err + file_type" where
  "getFileType read signatureList file_type =
     (case read of
        Inl err \<Rightarrow> Inl err
      | Inr buffers \<Rightarrow> Inr (getFileType_then buffers signatureList file_type))"

section \<open>Table construction\<close>

text \<open>
  Modelled from the spec: the error kinds of section 7 of the specification.
  The sources raise no error of their own; \<open>IoError\<close> is what the reader of
  the bytes rejects with.
\<close>

datatype error = ConfigurationError | IoError

text \<open>
  Modelled from the spec: the construction of the signature table. The table is
  the default export of \<open>signature-list.js\<close>, which is not among the sources.
  Sections 4.1 and 7 of the specification say that an entry with an empty
  pattern is rejected at construction time with a \<open>ConfigurationError\<close>, that
  construction from valid input cannot fail, and that the entries of the table
  are the given ones in construction order.
\<close>

definition construct_table :: "typeItem list \<Rightarrow> error + typeItem list" where
  "construct_table items =
     (if \<exists>e\<in>set items. signature e = [] then Inl ConfigurationError else Inr items)"

section \<open>Sample data\<close>

text \<open>
  Two rows of the README's signature table (the second is its JavaScript
  example), the first twelve bytes of the PNG file it lists, and the start of
  an ISO media file.
\<close>

definition png_item :: typeItem where
  "png_item = \<lparr>mime = ''image/png'', ext = ''png'', offset = Some 0,
     signature = [Some 0x89, Some 0x50, Some 0x4E, Some 0x47,
                  Some 0x0D, Some 0x0A, Some 0x1A, Some 0x0A]\<rparr>"

definition mp4_item :: typeItem where
  "mp4_item = \<lparr>mime = ''video/mp4'', ext = ''mp4'', offset = Some 4,
     signature = [Some 0x66, Some 0x74, Some 0x79, Some 0x70,
                  Some 0x69, Some 0x73, Some 0x6F, Some 0x6D]\<rparr>"

definition png_bytes :: "byte list" where
  "png_bytes = [0x89, 0x50, 0x4E, 0x47, 0x0D, 0x0A, 0x1A, 0x0A, 0, 0, 0, 0x0D]"

definition mp4_bytes :: "byte list" where
  "mp4_bytes = [0, 0, 0, 0x20, 0x66, 0x74, 0x79, 0x70, 0x69, 0x73, 0x6F, 0x6D, 0, 0, 2, 0]"

text \<open>
  Entries outside the README's table: a signature that ends in a hole, one that
  is a single hole, one with no element, and a second entry for the PNG magic
  number that leaves \<open>offset\<close> out.
\<close>

definition trailing_hole_item :: typeItem where
  "trailing_hole_item = \<lparr>mime = ''application/x-a'', ext = ''a'', offset = Some 0,
     signature = [Some 0x42, None]\<rparr>"

definition hole_item :: typeItem where
  "hole_item = \<lparr>mime = ''application/x-any'', ext = ''any'', offset = Some 0,
     signature = [None]\<rparr>"

definition empty_item :: typeItem where
  "empty_item = \<lparr>mime = ''application/octet-stream'', ext = ''bin'', offset = None,
     signature = []\<rparr>"

definition png_short_item :: typeItem where
  "png_short_item = \<lparr>mime = ''image/x-png'', ext = ''apng'', offset = None,
     signature = [Some 0x89, Some 0x50, Some 0x4E, Some 0x47]\<rparr>"

section \<open>The loop of \<open>check\<close>\<close>

lemma check_loop_past: "len \<le> i \<Longrightarrow> check_loop i len bufferss sig off"
  by (simp add: check_loop.simps)

lemma check_loop_iff:
  "check_loop i len bufferss sig off \<longleftrightarrow>
     (\<forall>j. i \<le> j \<and> j < len \<longrightarrow>
        sig ! j = None \<or> typed_array_get bufferss (int j + off) = sig ! j)"
proof (induction i len bufferss sig off rule: check_loop.induct)
  case (1 i len bufferss sig off)
  show ?case
  proof (cases "i < len")
    case False
    then show ?thesis by (auto simp: check_loop_past)
  next
    case True
    let ?ok = "\<lambda>j. sig ! j = None \<or> typed_array_get bufferss (int j + off) = sig ! j"
    show ?thesis
    proof (cases "?ok i")
      case False
      then have "\<not> check_loop i len bufferss sig off"
        using True by (subst check_loop.simps) auto
      moreover have "\<not> (\<forall>j. i \<le> j \<and> j < len \<longrightarrow> ?ok j)"
        using True False by blast
      ultimately show ?thesis by blast
    next
      case ok: True
      then have "check_loop i len bufferss sig off = check_loop (i + 1) len bufferss sig off"
        using True by (subst check_loop.simps) auto
      also have "\<dots> \<longleftrightarrow> (\<forall>j. i + 1 \<le> j \<and> j < len \<longrightarrow> ?ok j)"
        by (rule "1.IH") (use True ok in auto)
      also have "\<dots> \<longleftrightarrow> (\<forall>j. i \<le> j \<and> j < len \<longrightarrow> ?ok j)"
      proof
        assume r: "\<forall>j. i + 1 \<le> j \<and> j < len \<longrightarrow> ?ok j"
        show "\<forall>j. i \<le> j \<and> j < len \<longrightarrow> ?ok j"
        proof (intro allI impI)
          fix j assume "i \<le> j \<and> j < len"
          then consider "j = i" | "i + 1 \<le> j \<and> j < len" by linarith
          then show "?ok j" using ok r by cases auto
        qed
      next
        assume "\<forall>j. i \<le> j \<and> j < len \<longrightarrow> ?ok j"
        then show "\<forall>j. i + 1 \<le> j \<and> j < len \<longrightarrow> ?ok j" by simp
      qed
      finally show ?thesis .
    qed
  qed
qed

lemma check_iff_reads:
  "check b e \<longleftrightarrow>
     (\<forall>i<length (signature e).
        signature e ! i = None \<or> typed_array_get b (int i + offset_of e) = signature e ! i)"
  by (simp add: check_def check_loop_iff)

text \<open>
  Claim C1. \<open>check\<close> returns true exactly when every position \<open>i\<close> of the
  signature is either \<open>undefined\<close> (the wildcard, which also accepts a byte that
  is absent because \<open>offset + i\<close> lies outside the buffer) or a byte value that
  is present in the buffer at \<open>offset + i\<close> and equal to it; a byte value of the
  signature that is absent from the buffer or differs makes the result false.
\<close>

theorem check_iff_every_position:
  "check b e \<longleftrightarrow>
     (\<forall>i<length (signature e).
        signature e ! i = None \<or>
        (\<exists>v. signature e ! i = Some v \<and> 0 \<le> offset_of e + int i \<and>
             offset_of e + int i < int (length b) \<and> b ! nat (offset_of e + int i) = v))"
  unfolding check_iff_reads typed_array_get_def
  by (auto simp: add.commute split: if_splits)

theorem check_iff_every_position_witness:
  "check png_bytes png_item \<and>
   signature png_item ! 3 = Some 0x47 \<and>
   png_bytes ! nat (offset_of png_item + 3) = 0x47 \<and>
   \<not> check [0x89, 0x50, 0x4E] png_item"
proof -
  have m: "check png_bytes png_item" by code_simp
  have l: "(3::nat) < length (signature png_item)" by (simp add: png_item_def)
  have s: "signature png_item ! 3 = Some 0x47" by (simp add: png_item_def)
  have o: "offset_of png_item = 0" by (simp add: png_item_def offset_of_def)
  have "png_bytes ! nat (offset_of png_item + int 3) = 0x47"
    using m l s check_iff_every_position [of png_bytes png_item] by fastforce
  moreover have "\<not> check [0x89, 0x50, 0x4E] png_item"
    using l s o check_iff_every_position [of "[0x89, 0x50, 0x4E]" png_item] by fastforce
  ultimately show ?thesis using m s by simp
qed

section \<open>The loop of \<open>getFileType\<close>\<close>

lemma getFileType_loop_none:
  "(\<forall>j. i \<le> j \<and> j < len \<longrightarrow> \<not> check b (t ! j)) \<Longrightarrow>
   getFileType_loop i len b t f = \<lparr>mime = f, ext = ''''\<rparr>"
proof (induction i len b t f rule: getFileType_loop.induct)
  case (1 i len b t f)
  show ?case
  proof (cases "i < len")
    case False
    then show ?thesis by (subst getFileType_loop.simps) simp
  next
    case True
    then have no: "\<not> check b (t ! i)" using "1.prems" by simp
    have "getFileType_loop (i + 1) len b t f = \<lparr>mime = f, ext = ''''\<rparr>"
      by (rule "1.IH") (use True no "1.prems" in auto)
    then show ?thesis using True no by (subst getFileType_loop.simps) simp
  qed
qed

lemma getFileType_loop_first:
  "i \<le> k \<Longrightarrow> k < len \<Longrightarrow> check b (t ! k) \<Longrightarrow>
   (\<forall>j. i \<le> j \<and> j < k \<longrightarrow> \<not> check b (t ! j)) \<Longrightarrow>
   getFileType_loop i len b t f = \<lparr>mime = mime (t ! k), ext = ext (t ! k)\<rparr>"
proof (induction i len b t f rule: getFileType_loop.induct)
  case (1 i len b t f)
  show ?case
  proof (cases "i = k")
    case True
    then show ?thesis using "1.prems" by (subst getFileType_loop.simps) simp
  next
    case False
    then have lt: "i < k" using "1.prems" by simp
    then have no: "\<not> check b (t ! i)" using "1.prems" by simp
    have il: "i < len" using lt "1.prems" by simp
    have "getFileType_loop (i + 1) len b t f = \<lparr>mime = mime (t ! k), ext = ext (t ! k)\<rparr>"
      by (rule "1.IH") (use il no lt "1.prems" in auto)
    then show ?thesis using il no by (subst getFileType_loop.simps) simp
  qed
qed

lemma getFileType_then_none:
  "(\<forall>e\<in>set t. \<not> check b e) \<Longrightarrow> getFileType_then b t f = \<lparr>mime = f, ext = ''''\<rparr>"
  unfolding getFileType_then_def by (rule getFileType_loop_none) simp

lemma getFileType_then_first:
  "k < length t \<Longrightarrow> check b (t ! k) \<Longrightarrow> (\<forall>j<k. \<not> check b (t ! j)) \<Longrightarrow>
   getFileType_then b t f = \<lparr>mime = mime (t ! k), ext = ext (t ! k)\<rparr>"
  unfolding getFileType_then_def by (rule getFileType_loop_first) simp_all

lemma first_match_exists:
  "e \<in> set t \<Longrightarrow> check b e \<Longrightarrow>
   \<exists>k<length t. check b (t ! k) \<and> (\<forall>j<k. \<not> check b (t ! j))"
proof -
  assume "e \<in> set t" "check b e"
  then obtain n where n: "n < length t" "check b (t ! n)"
    by (auto simp: in_set_conv_nth)
  define k where "k = (LEAST m. m < length t \<and> check b (t ! m))"
  have "k < length t \<and> check b (t ! k)"
    unfolding k_def by (rule LeastI [of _ n]) (use n in simp)
  moreover have "\<forall>j<k. \<not> check b (t ! j)"
  proof (intro allI impI notI)
    fix j assume "j < k" "check b (t ! j)"
    moreover from this \<open>k < length t \<and> check b (t ! k)\<close> have "j < length t" by simp
    ultimately show False unfolding k_def using not_less_Least by blast
  qed
  ultimately show ?thesis by blast
qed

text \<open>
  Claim C2. The callback of \<open>getFileType\<close> scans \<open>signatureList\<close> in its order
  and returns \<open>{ mime, ext }\<close> of the first entry that \<open>check\<close> accepts: when
  several entries accept the buffer, the entry at the least index decides. Only
  when no entry accepts it is the result \<open>{ mime: file.type, ext: "" }\<close>.
\<close>

theorem getFileType_then_first_match:
  "(\<forall>k<length t. check b (t ! k) \<and> (\<forall>j<k. \<not> check b (t ! j)) \<longrightarrow>
      getFileType_then b t f = \<lparr>mime = mime (t ! k), ext = ext (t ! k)\<rparr>) \<and>
   ((\<forall>e\<in>set t. \<not> check b e) \<longrightarrow> getFileType_then b t f = \<lparr>mime = f, ext = ''''\<rparr>) \<and>
   (getFileType_then b t f =
      (case find (check b) t of
         Some e \<Rightarrow> \<lparr>mime = mime e, ext = ext e\<rparr>
       | None \<Rightarrow> \<lparr>mime = f, ext = ''''\<rparr>))"
proof (intro conjI allI impI)
  fix k assume "k < length t" "check b (t ! k) \<and> (\<forall>j<k. \<not> check b (t ! j))"
  then show "getFileType_then b t f = \<lparr>mime = mime (t ! k), ext = ext (t ! k)\<rparr>"
    by (simp add: getFileType_then_first)
next
  assume "\<forall>e\<in>set t. \<not> check b e"
  then show "getFileType_then b t f = \<lparr>mime = f, ext = ''''\<rparr>"
    by (rule getFileType_then_none)
next
  show "getFileType_then b t f =
      (case find (check b) t of
         Some e \<Rightarrow> \<lparr>mime = mime e, ext = ext e\<rparr>
       | None \<Rightarrow> \<lparr>mime = f, ext = ''''\<rparr>)"
  proof (cases "find (check b) t")
    case None
    then have "\<forall>e\<in>set t. \<not> check b e" by (auto simp: find_None_iff)
    then show ?thesis using None by (simp add: getFileType_then_none)
  next
    case (Some e)
    then obtain k where "k < length t" "check b (t ! k)" "e = t ! k" "\<forall>j<k. \<not> check b (t ! j)"
      by (auto simp: find_Some_iff)
    then show ?thesis using Some by (simp add: getFileType_then_first)
  qed
qed

theorem getFileType_then_first_match_witness:
  "getFileType_then png_bytes [mp4_item, png_item, png_short_item] ''image/jpeg'' =
     \<lparr>mime = ''image/png'', ext = ''png''\<rparr> \<and>
   check png_bytes png_short_item \<and>
   getFileType_then mp4_bytes [png_item] ''video/quicktime'' =
     \<lparr>mime = ''video/quicktime'', ext = ''''\<rparr>"
proof -
  let ?t = "[mp4_item, png_item, png_short_item]"
  have a: "(1::nat) < length ?t" by simp
  have b: "check png_bytes (?t ! 1)" by code_simp
  have c: "\<forall>j<1::nat. \<not> check png_bytes (?t ! j)"
  proof -
    have "\<not> check png_bytes mp4_item" by code_simp
    then show ?thesis by simp
  qed
  have d: "check png_bytes png_short_item" by code_simp
  have e: "\<forall>e\<in>set [png_item]. \<not> check mp4_bytes e"
  proof -
    have "\<not> check mp4_bytes png_item" by code_simp
    then show ?thesis by simp
  qed
  have "getFileType_then png_bytes ?t ''image/jpeg'' = \<lparr>mime = mime (?t ! 1), ext = ext (?t ! 1)\<rparr>"
    using getFileType_then_first_match [of ?t png_bytes "''image/jpeg''"] a b c by blast
  moreover have "getFileType_then mp4_bytes [png_item] ''video/quicktime'' =
     \<lparr>mime = ''video/quicktime'', ext = ''''\<rparr>"
    using getFileType_then_first_match [of "[png_item]" mp4_bytes "''video/quicktime''"] e by blast
  ultimately show ?thesis using d by (simp add: png_item_def)
qed

section \<open>Two facts about \<open>check\<close>\<close>

lemma check_empty_buffer:
  "i < length (signature e) \<Longrightarrow> signature e ! i \<noteq> None \<Longrightarrow> \<not> check [] e"
  by (auto simp: check_iff_reads typed_array_get_def)

lemma check_no_signature: "signature e = [] \<Longrightarrow> check b e"
  by (simp add: check_iff_reads)

section \<open>Short buffers\<close>

text \<open>
  Claim C3 says that a buffer shorter than \<open>offset + signature.length\<close> never
  matches. It fails where every position of the signature that falls beyond the
  buffer's end is \<open>undefined\<close>: the read there gives \<open>undefined\<close> as well, the
  two are equal, and the loop goes on.
\<close>

theorem check_short_buffer_trailing_hole:
  "int (length [0x42 :: byte]) < offset_of trailing_hole_item + int (length (signature trailing_hole_item)) \<and>
   check [0x42] trailing_hole_item"
proof -
  have "check [0x42] trailing_hole_item" by code_simp
  then show ?thesis by (simp add: trailing_hole_item_def offset_of_def)
qed

text \<open>
  Claim C3, amended. For a buffer shorter than \<open>offset + signature.length\<close>,
  \<open>check\<close> returns false whenever some position of the signature that falls at
  or beyond the buffer's end holds a byte value. The read at that position gives
  \<open>undefined\<close>; it raises nothing, and \<open>check\<close> is a total function.
\<close>

theorem check_short_buffer:
  assumes "int (length b) < offset_of e + int (length (signature e))"
    and "i < length (signature e)"
    and "signature e ! i \<noteq> None"
    and "int (length b) \<le> offset_of e + int i"
  shows "typed_array_get b (offset_of e + int i) = None \<and> \<not> check b e"
proof
  show absent: "typed_array_get b (offset_of e + int i) = None"
    using assms(4) by (simp add: typed_array_get_def)
  show "\<not> check b e"
  proof
    assume "check b e"
    then have "signature e ! i = None \<or> typed_array_get b (int i + offset_of e) = signature e ! i"
      using assms(2) by (simp add: check_iff_reads)
    then show False using assms(3) absent by (simp add: add.commute)
  qed
qed

theorem check_short_buffer_witness:
  "typed_array_get [0x89, 0x50, 0x4E] (offset_of png_item + int 3) = None \<and>
   \<not> check [0x89, 0x50, 0x4E] png_item"
proof -
  have o: "offset_of png_item = 0" by (simp add: png_item_def offset_of_def)
  show ?thesis
    by (rule check_short_buffer [of "[0x89, 0x50, 0x4E]" png_item 3]) (simp_all add: o, simp_all add: png_item_def)
qed

section \<open>The empty buffer\<close>

text \<open>
  Claim C4 says that an empty buffer gives the fallback for every non-empty table
  with offsets \<open>\<ge> 0\<close>. It fails for a table whose entry has a signature of
  \<open>undefined\<close> elements only: that entry accepts the empty buffer.
\<close>

theorem getFileType_then_empty_buffer_hole:
  "[hole_item] \<noteq> [] \<and> 0 \<le> offset_of hole_item \<and>
   getFileType_then [] [hole_item] ''text/plain'' = \<lparr>mime = ''application/x-any'', ext = ''any''\<rparr> \<and>
   getFileType_then [] [hole_item] ''text/plain'' \<noteq> \<lparr>mime = ''text/plain'', ext = ''''\<rparr>"
proof -
  have "getFileType_then [] [hole_item] ''text/plain'' = \<lparr>mime = ''application/x-any'', ext = ''any''\<rparr>"
    by code_simp
  then show ?thesis by (simp add: hole_item_def offset_of_def)
qed

text \<open>
  Claim C4, amended. For every non-empty table whose entries all have an offset
  \<open>\<ge> 0\<close> and a signature with at least one byte value, and for every fallback,
  the callback of \<open>getFileType\<close> on the empty buffer returns
  \<open>{ mime: fallback, ext: "" }\<close>.
\<close>

theorem getFileType_then_empty_buffer:
  assumes "t \<noteq> []"
    and "\<forall>e\<in>set t. 0 \<le> offset_of e"
    and "\<forall>e\<in>set t. \<exists>i<length (signature e). signature e ! i \<noteq> None"
  shows "getFileType_then [] t f = \<lparr>mime = f, ext = ''''\<rparr>"
proof (rule getFileType_then_none)
  show "\<forall>e\<in>set t. \<not> check [] e"
    using assms(3) check_empty_buffer by blast
qed

theorem getFileType_then_empty_buffer_witness:
  "getFileType_then [] [png_item, mp4_item] ''text/plain'' = \<lparr>mime = ''text/plain'', ext = ''''\<rparr>"
proof (rule getFileType_then_empty_buffer)
  show "[png_item, mp4_item] \<noteq> []" by simp
  show "\<forall>e\<in>set [png_item, mp4_item]. 0 \<le> offset_of e"
    by (simp add: png_item_def mp4_item_def offset_of_def)
  have "0 < length (signature png_item) \<and> signature png_item ! 0 \<noteq> None"
    by (simp add: png_item_def)
  moreover have "0 < length (signature mp4_item) \<and> signature mp4_item ! 0 \<noteq> None"
    by (simp add: mp4_item_def)
  ultimately show "\<forall>e\<in>set [png_item, mp4_item]. \<exists>i<length (signature e). signature e ! i \<noteq> None"
    by auto
qed

section \<open>Totality\<close>

text \<open>
  Claim C5. Classification never fails. Once the bytes are read, the promise of
  \<open>getFileType\<close> resolves with the object of the callback, never with an error;
  that object is the fallback \<open>{ mime: file.type, ext: "" }\<close> or the
  \<open>{ mime, ext }\<close> of an entry that accepts the buffer, and when no entry accepts
  the buffer it is the fallback, an ordinary result.
\<close>

theorem getFileType_never_fails:
  "getFileType (Inr b :: 'err + byte list) t f = Inr (getFileType_then b t f) \<and>
   (getFileType_then b t f = \<lparr>mime = f, ext = ''''\<rparr> \<or>
    (\<exists>e\<in>set t. check b e \<and> getFileType_then b t f = \<lparr>mime = mime e, ext = ext e\<rparr>)) \<and>
   ((\<forall>e\<in>set t. \<not> check b e) \<longrightarrow> getFileType_then b t f = \<lparr>mime = f, ext = ''''\<rparr>)"
proof (intro conjI impI)
  show "getFileType (Inr b) t f = Inr (getFileType_then b t f)"
    by (simp add: getFileType_def)
next
  show "getFileType_then b t f = \<lparr>mime = f, ext = ''''\<rparr> \<or>
    (\<exists>e\<in>set t. check b e \<and> getFileType_then b t f = \<lparr>mime = mime e, ext = ext e\<rparr>)"
  proof (cases "\<forall>e\<in>set t. \<not> check b e")
    case True
    then show ?thesis by (simp add: getFileType_then_none)
  next
    case False
    then obtain e where "e \<in> set t" "check b e" by blast
    then obtain k where k: "k < length t" "check b (t ! k)" "\<forall>j<k. \<not> check b (t ! j)"
      using first_match_exists by blast
    then have "getFileType_then b t f = \<lparr>mime = mime (t ! k), ext = ext (t ! k)\<rparr>"
      by (simp add: getFileType_then_first)
    moreover have "t ! k \<in> set t" using k(1) by simp
    ultimately show ?thesis using k(2) by blast
  qed
next
  assume "\<forall>e\<in>set t. \<not> check b e"
  then show "getFileType_then b t f = \<lparr>mime = f, ext = ''''\<rparr>"
    by (rule getFileType_then_none)
qed

theorem getFileType_never_fails_witness:
  "getFileType (Inr mp4_bytes :: error + byte list) [png_item] ''video/quicktime'' =
     Inr \<lparr>mime = ''video/quicktime'', ext = ''''\<rparr>"
proof -
  have "\<not> check mp4_bytes png_item" by code_simp
  then have "\<forall>e\<in>set [png_item]. \<not> check mp4_bytes e" by simp
  then show ?thesis
    using getFileType_never_fails [where 'err = error, of mp4_bytes "[png_item]" "''video/quicktime''"] by simp
qed

section \<open>Changing one byte\<close>

text \<open>
  Claim C6. When \<open>check\<close> accepts a buffer and position \<open>i\<close> of the signature
  holds a byte value, the byte at \<open>offset + i\<close> is in the buffer, and replacing
  that one byte with any other value makes \<open>check\<close> return false.
\<close>

theorem check_changed_byte_fails:
  assumes "check b e"
    and "i < length (signature e)"
    and "signature e ! i = Some v"
    and "v' \<noteq> v"
  shows "0 \<le> offset_of e + int i \<and> nat (offset_of e + int i) < length b \<and>
         b ! nat (offset_of e + int i) = v \<and>
         \<not> check (b[nat (offset_of e + int i) := v']) e"
proof -
  let ?k = "offset_of e + int i"
  have rd: "typed_array_get b ?k = Some v"
    using assms(1-3) by (auto simp: check_iff_reads add.commute)
  then have inb: "0 \<le> ?k" "?k < int (length b)" and val: "b ! nat ?k = v"
    by (auto simp: typed_array_get_def split: if_splits)
  have "typed_array_get (b[nat ?k := v']) ?k = Some v'"
    using inb by (simp add: typed_array_get_def)
  then have "typed_array_get (b[nat ?k := v']) (int i + offset_of e) \<noteq> signature e ! i"
    using assms(3,4) by (simp add: add.commute)
  then have "\<not> check (b[nat ?k := v']) e"
    using assms(2,3) by (auto simp: check_iff_reads)
  then show ?thesis using inb val by simp
qed

theorem check_changed_byte_fails_witness:
  "check png_bytes png_item \<and>
   png_bytes ! nat (offset_of png_item + int 3) = 0x47 \<and>
   \<not> check (png_bytes[nat (offset_of png_item + int 3) := 0x48]) png_item"
proof -
  have m: "check png_bytes png_item" by code_simp
  have l: "(3::nat) < length (signature png_item)" by (simp add: png_item_def)
  have s: "signature png_item ! 3 = Some 0x47" by (simp add: png_item_def)
  have d: "(0x48::byte) \<noteq> 0x47" by simp
  show ?thesis using check_changed_byte_fails [OF m l s d] m by simp
qed

section \<open>Configuration errors\<close>

text \<open>
  Claim C7. Table construction rejects a list with an entry whose signature is
  empty with \<open>ConfigurationError\<close>, and returns the list unchanged when every
  signature is non-empty. Matching never produces that error: \<open>getFileType\<close>
  resolves with an error only when reading the bytes gave that error.
\<close>

theorem construct_table_rejects_empty:
  "((\<exists>e\<in>set items. signature e = []) \<longrightarrow> construct_table items = Inl ConfigurationError) \<and>
   ((\<forall>e\<in>set items. signature e \<noteq> []) \<longrightarrow> construct_table items = Inr items) \<and>
   getFileType (Inr b) t f \<noteq> Inl ConfigurationError \<and>
   (getFileType r t f = Inl (err :: error) \<longleftrightarrow> r = Inl err)"
  by (auto simp: construct_table_def getFileType_def split: sum.splits)

theorem construct_table_rejects_empty_witness:
  "construct_table [png_item, empty_item] = Inl ConfigurationError \<and>
   construct_table [png_item, mp4_item] = Inr [png_item, mp4_item] \<and>
   getFileType (Inr png_bytes) [png_item, empty_item] ''text/plain'' \<noteq> Inl ConfigurationError"
proof -
  have "\<exists>e\<in>set [png_item, empty_item]. signature e = []"
    by (simp add: empty_item_def)
  then have a: "construct_table [png_item, empty_item] = Inl ConfigurationError"
    using construct_table_rejects_empty [of "[png_item, empty_item]"] by blast
  have "\<forall>e\<in>set [png_item, mp4_item]. signature e \<noteq> []"
    by (simp add: png_item_def mp4_item_def)
  then have b: "construct_table [png_item, mp4_item] = Inr [png_item, mp4_item]"
    using construct_table_rejects_empty [of "[png_item, mp4_item]"] by blast
  have c: "getFileType (Inr png_bytes) [png_item, empty_item] ''text/plain'' \<noteq> Inl ConfigurationError"
    using construct_table_rejects_empty [of "[]" png_bytes "[png_item, empty_item]" "''text/plain''"] by blast
  show ?thesis using a b c by blast
qed

section \<open>The window that decides\<close>

text \<open>
  Claim C8. The result of \<open>check\<close> depends only on the reads at
  \<open>offset, \<dots>, offset + signature.length - 1\<close>: two buffers that give the
  same read at each of these positions (the same byte, or \<open>undefined\<close> for both)
  get the same result.
\<close>

theorem check_depends_on_window:
  assumes "\<forall>i<length (signature e).
             typed_array_get b1 (offset_of e + int i) = typed_array_get b2 (offset_of e + int i)"
  shows "check b1 e = check b2 e"
  using assms by (simp add: check_iff_reads add.commute)

theorem check_depends_on_window_witness:
  "check (take 8 png_bytes @ [0xFF, 0xFE]) png_item = check png_bytes png_item \<and>
   check png_bytes png_item"
proof -
  have "\<forall>i\<in>set [0..<length (signature png_item)].
          typed_array_get (take 8 png_bytes @ [0xFF, 0xFE]) (offset_of png_item + int i) =
          typed_array_get png_bytes (offset_of png_item + int i)"
    by code_simp
  then have "\<forall>i<length (signature png_item).
          typed_array_get (take 8 png_bytes @ [0xFF, 0xFE]) (offset_of png_item + int i) =
          typed_array_get png_bytes (offset_of png_item + int i)"
    by simp
  moreover have "check png_bytes png_item" by code_simp
  ultimately show ?thesis using check_depends_on_window [of png_item "take 8 png_bytes @ [0xFF, 0xFE]" png_bytes] by blast
qed

section \<open>The empty signature\<close>

text \<open>
  Claim C9. An entry whose signature is empty accepts every buffer, the empty
  one included. With such an entry in the table, the loop of \<open>getFileType\<close>
  always returns from inside (the fallback is not reached), with the
  \<open>{ mime, ext }\<close> of the first entry that accepts the buffer; that is the entry
  with the empty signature whenever no earlier entry accepts the buffer.
\<close>

theorem check_empty_signature:
  assumes "signature e = []"
  shows "check b e \<and>
    (e \<in> set t \<longrightarrow>
       find (check b) t \<noteq> None \<and>
       (\<exists>k<length t. check b (t ! k) \<and> (\<forall>j<k. \<not> check b (t ! j)) \<and>
          getFileType_then b t f = \<lparr>mime = mime (t ! k), ext = ext (t ! k)\<rparr>)) \<and>
    (\<forall>k<length t. t ! k = e \<and> (\<forall>j<k. \<not> check b (t ! j)) \<longrightarrow>
       getFileType_then b t f = \<lparr>mime = mime e, ext = ext e\<rparr>)"
proof -
  have m: "check b e" using assms by (rule check_no_signature)
  have p1: "find (check b) t \<noteq> None \<and>
       (\<exists>k<length t. check b (t ! k) \<and> (\<forall>j<k. \<not> check b (t ! j)) \<and>
          getFileType_then b t f = \<lparr>mime = mime (t ! k), ext = ext (t ! k)\<rparr>)"
    if mem: "e \<in> set t"
  proof
    show "find (check b) t \<noteq> None" using mem m by (auto simp: find_None_iff)
    obtain k where k: "k < length t" "check b (t ! k)" "\<forall>j<k. \<not> check b (t ! j)"
      using first_match_exists [OF mem m] by blast
    have "getFileType_then b t f = \<lparr>mime = mime (t ! k), ext = ext (t ! k)\<rparr>"
      using k by (rule getFileType_then_first)
    then show "\<exists>k<length t. check b (t ! k) \<and> (\<forall>j<k. \<not> check b (t ! j)) \<and>
          getFileType_then b t f = \<lparr>mime = mime (t ! k), ext = ext (t ! k)\<rparr>"
      using k by blast
  qed
  have p2: "getFileType_then b t f = \<lparr>mime = mime e, ext = ext e\<rparr>"
    if "k < length t" "t ! k = e" "\<forall>j<k. \<not> check b (t ! j)" for k
  proof -
    have "check b (t ! k)" using m that(2) by simp
    then have "getFileType_then b t f = \<lparr>mime = mime (t ! k), ext = ext (t ! k)\<rparr>"
      using that(1,3) by (simp add: getFileType_then_first)
    then show ?thesis using that(2) by simp
  qed
  show ?thesis using m p1 p2 by blast
qed

theorem check_empty_signature_witness:
  "check [] empty_item \<and> check mp4_bytes empty_item \<and>
   getFileType_then mp4_bytes [png_item, empty_item] ''video/mp4'' =
     \<lparr>mime = ''application/octet-stream'', ext = ''bin''\<rparr> \<and>
   getFileType_then png_bytes [png_item, empty_item] ''video/mp4'' =
     \<lparr>mime = ''image/png'', ext = ''png''\<rparr>"
proof -
  let ?t = "[png_item, empty_item]"
  have s: "signature empty_item = []" by (simp add: empty_item_def)
  have n: "\<not> check mp4_bytes png_item" by code_simp
  have a: "(1::nat) < length ?t" by simp
  have b: "?t ! 1 = empty_item \<and> (\<forall>j<1::nat. \<not> check mp4_bytes (?t ! j))"
    using n by simp
  have c: "getFileType_then mp4_bytes ?t ''video/mp4'' = \<lparr>mime = mime empty_item, ext = ext empty_item\<rparr>"
    using check_empty_signature [OF s, of mp4_bytes ?t "''video/mp4''"] a b by blast
  have d: "getFileType_then png_bytes ?t ''video/mp4'' = \<lparr>mime = ''image/png'', ext = ''png''\<rparr>"
    by code_simp
  have e: "check [] empty_item" using check_empty_signature [OF s, of "[]"] by (rule conjunct1)
  have f: "check mp4_bytes empty_item" using check_empty_signature [OF s, of mp4_bytes] by (rule conjunct1)
  have g: "mime empty_item = ''application/octet-stream''" "ext empty_item = ''bin''"
    by (simp_all add: empty_item_def)
  show ?thesis using c d e f unfolding g by (intro conjI)
qed

section \<open>The fallback object\<close>

text \<open>
  Claim C10. When no entry accepts the buffer, the object returned is the
  fallback and its \<open>ext\<close> is the empty string, whatever the buffer, the table
  and \<open>file.type\<close> are.
\<close>

theorem getFileType_then_fallback_ext:
  "(\<forall>e\<in>set t. \<not> check b e) \<Longrightarrow>
   getFileType_then b t f = \<lparr>mime = f, ext = ''''\<rparr> \<and> ext (getFileType_then b t f) = ''''"
  by (simp add: getFileType_then_none)

theorem getFileType_then_fallback_ext_witness:
  "ext (getFileType_then mp4_bytes [png_item] ''video/quicktime'') = ''''"
proof -
  have "\<not> check mp4_bytes png_item" by code_simp
  then have "\<forall>e\<in>set [png_item]. \<not> check mp4_bytes e" by simp
  then show ?thesis using getFileType_then_fallback_ext [of "[png_item]" mp4_bytes "''video/quicktime''"] by simp
qed

end
